theory Spec2Isabelle
  imports Complex_Main
begin

section \<open>Python values, exceptions and numpy arrays\<close>

text \<open>
  The module \<^verbatim>\<open>scipy/sparse/linalg/interface.py\<close> defines the class
  \<^verbatim>\<open>LinearOperator\<close> and the function \<^verbatim>\<open>aslinearoperator\<close>.
  An exception is a value of type \<open>error\<close>: the Python exception class with its
  message.  A computation that may raise returns \<open>error + 'a\<close>, \<open>Inl\<close> the
  exception.
\<close>

datatype error =
    ValueError string
  | TypeError string
  | NotImplementedError string
  | AttributeError string

text \<open>
  A numpy array is its shape and its elements in row-major (C) order.  The element
  type is a parameter: the module never computes with elements itself, it moves
  them and hands arrays to \<^verbatim>\<open>dot\<close>.
\<close>

datatype 'a ndarray = NDArray (nd_shape: "nat list") (nd_data: "'a list")

definition nd_wf :: "'a ndarray \<Rightarrow> bool" where
  "nd_wf a = (length (nd_data a) = prod_list (nd_shape a))"

definition nd_size :: "'a ndarray \<Rightarrow> nat" where
  "nd_size a = prod_list (nd_shape a)"

text \<open>
  The Python values that reach the module as arguments or attributes: \<^verbatim>\<open>None\<close>,
  integers, strings, tuples, lists, numpy dtype objects (by name) and callables
  from arrays to arrays that may raise.
\<close>

datatype 'a pyval =
    PNone
  | PInt int
  | PStr string
  | PTuple "'a pyval list"
  | PList "'a pyval list"
  | PDtype string
  | PFun "'a ndarray \<Rightarrow> error + 'a ndarray"

text \<open>Calling a value: only a callable can be called.\<close>

fun py_call :: "'a pyval \<Rightarrow> 'a ndarray \<Rightarrow> error + 'a ndarray" where
  "py_call (PFun f) x = f x"
| "py_call _ x = Inl (TypeError ''object is not callable'')"

text \<open>\<^verbatim>\<open>tuple(x)\<close>: the items of an iterable; a value that is not iterable raises.\<close>

fun py_tuple :: "'a pyval \<Rightarrow> error + 'a pyval list" where
  "py_tuple (PTuple xs) = Inr xs"
| "py_tuple (PList xs) = Inr xs"
| "py_tuple (PStr s) = Inr (map (\<lambda>c. PStr [c]) s)"
| "py_tuple _ = Inl (TypeError ''object is not iterable'')"

text \<open>
  Modelled from the spec: \<^verbatim>\<open>scipy.sparse.sputils.isshape\<close> is imported by the module
  and its source is not part of it.  The specification calls it the shape-validity
  predicate: a sequence of exactly two non-negative integers.
\<close>

fun isshape :: "'a pyval list \<Rightarrow> bool" where
  "isshape [PInt m, PInt n] = (0 \<le> m \<and> 0 \<le> n)"
| "isshape _ = False"

text \<open>
  Three things in numpy depend on numpy's table of data types and on the
  arithmetic of the element type (which wraps around for the fixed-width integer
  types and rounds for the floating-point types): the product \<^verbatim>\<open>dot(a, b)\<close>, the
  conjugate of an element (\<^verbatim>\<open>a.conj()\<close> takes it of every element), and the data
  type that \<^verbatim>\<open>numpy.dtype(d)\<close> finds for a value \<open>d\<close> that is not a dtype object
  (\<open>None\<close> when \<open>d\<close> names no data type).  They are parameters of the
  model, so that every theorem holds whatever numpy computes there.
\<close>

record 'a numpy =
  np_dot :: "'a ndarray \<Rightarrow> 'a ndarray \<Rightarrow> error + 'a ndarray"
  np_conj :: "'a \<Rightarrow> 'a"
  np_dtype_table :: "'a pyval \<Rightarrow> string option"

text \<open>
  \<^verbatim>\<open>numpy.dtype(d)\<close>: a dtype object is returned as it is; any other value is
  looked up, and one that names no data type raises \<^verbatim>\<open>TypeError\<close>.  The canonical
  tag is the name that \<^verbatim>\<open>str\<close> prints.
\<close>

definition numpy_dtype :: "'a numpy \<Rightarrow> 'a pyval \<Rightarrow> error + string" where
  "numpy_dtype np d =
     (case d of
        PDtype name \<Rightarrow> Inr name
      | _ \<Rightarrow> (case np_dtype_table np d of
                Some name \<Rightarrow> Inr name
              | None \<Rightarrow> Inl (TypeError ''data type not understood'')))"

subsection \<open>The numpy functions the module calls\<close>

text \<open>\<^verbatim>\<open>asarray\<close> of an array is the array.\<close>

definition asarray :: "'a ndarray \<Rightarrow> 'a ndarray" where
  "asarray a = a"

fun atleast_1d :: "'a ndarray \<Rightarrow> 'a ndarray" where
  "atleast_1d (NDArray [] xs) = NDArray [1] xs"
| "atleast_1d a = a"

fun atleast_2d :: "'a ndarray \<Rightarrow> 'a ndarray" where
  "atleast_2d (NDArray [] xs) = NDArray [1, 1] xs"
| "atleast_2d (NDArray [n] xs) = NDArray [1, n] xs"
| "atleast_2d a = a"

text \<open>
  \<^verbatim>\<open>a.T\<close> and \<^verbatim>\<open>a.transpose()\<close> reverse the axes.  \<open>last_axis d k xs\<close> is
  \<^verbatim>\<open>a[..., k]\<close> for an array whose last axis has length \<open>d\<close>; the transposed data
  run over the last axis first.  The shape is given reversed.
\<close>

definition last_axis :: "nat \<Rightarrow> nat \<Rightarrow> 'a list \<Rightarrow> 'a list" where
  "last_axis d k xs = map (\<lambda>m. xs ! (m * d + k)) [0..<length xs div d]"

fun transpose_data :: "nat list \<Rightarrow> 'a list \<Rightarrow> 'a list" where
  "transpose_data [] xs = xs"
| "transpose_data (d # ds) xs =
     concat (map (\<lambda>k. transpose_data ds (last_axis d k xs)) [0..<d])"

definition nd_transpose :: "'a ndarray \<Rightarrow> 'a ndarray" where
  "nd_transpose a = NDArray (rev (nd_shape a)) (transpose_data (rev (nd_shape a)) (nd_data a))"

text \<open>
  Iterating over an array yields its sub-arrays along the first axis; a 0-d array
  cannot be iterated.
\<close>

definition nd_iter :: "'a ndarray \<Rightarrow> error + 'a ndarray list" where
  "nd_iter a =
     (case nd_shape a of
        [] \<Rightarrow> Inl (TypeError ''iteration over a 0-d array'')
      | d # ds \<Rightarrow>
          Inr (map (\<lambda>k. NDArray ds (take (prod_list ds) (drop (k * prod_list ds) (nd_data a))))
                 [0..<d]))"

text \<open>\<^verbatim>\<open>a.reshape(-1, 1)\<close>: all elements in one column.\<close>

definition reshape_column :: "'a ndarray \<Rightarrow> 'a ndarray" where
  "reshape_column a = NDArray [nd_size a, 1] (nd_data a)"

text \<open>
  \<^verbatim>\<open>concatenate(arrs, axis)\<close> joins arrays that agree in every dimension but
  \<open>axis\<close>; \<^verbatim>\<open>hstack\<close> makes every array at least 1-d and joins along the second
  axis, or along the first for 1-d arrays.
\<close>

definition concatenate :: "nat \<Rightarrow> 'a ndarray list \<Rightarrow> error + 'a ndarray" where
  "concatenate axis arrs =
     (case arrs of
        [] \<Rightarrow> Inl (ValueError ''need at least one array to concatenate'')
      | a0 # _ \<Rightarrow>
          let s0 = nd_shape a0 in
          if length s0 \<le> axis then Inl (ValueError ''axis out of bounds'')
          else if list_ex (\<lambda>a. length (nd_shape a) \<noteq> length s0
                               \<or> (nd_shape a)[axis := 0] \<noteq> s0[axis := 0]) arrs
          then Inl (ValueError ''all the input array dimensions except for the concatenation axis must match exactly'')
          else Inr (NDArray
                 (s0[axis := sum_list (map (\<lambda>a. nd_shape a ! axis) arrs)])
                 (concat (map (\<lambda>i. concat (map (\<lambda>a.
                      let bs = prod_list (drop axis (nd_shape a))
                      in take bs (drop (i * bs) (nd_data a))) arrs))
                    [0..<prod_list (take axis s0)]))))"

definition hstack :: "'a ndarray list \<Rightarrow> error + 'a ndarray" where
  "hstack tup =
     (let arrs = map atleast_1d tup in
      case arrs of
        [] \<Rightarrow> Inl (ValueError ''need at least one array to concatenate'')
      | a0 # _ \<Rightarrow>
          if length (nd_shape a0) = 1 then concatenate 0 arrs else concatenate 1 arrs)"

text \<open>\<^verbatim>\<open>a.conj()\<close>: the conjugate of every element.\<close>

definition nd_conj :: "'a numpy \<Rightarrow> 'a ndarray \<Rightarrow> 'a ndarray" where
  "nd_conj np a = NDArray (nd_shape a) (map (np_conj np) (nd_data a))"

section \<open>The class LinearOperator\<close>

text \<open>
  An instance is its attributes; an attribute that has not been set is \<open>None\<close>.
  \<open>shape\<close> holds a tuple, \<open>matvec\<close>, \<open>rmatvec\<close> and \<open>matmat\<close> hold what
  the constructor stored, \<open>dtype\<close> holds the name of a numpy dtype.
\<close>

record 'a LinearOperator =
  shape :: "'a pyval option"
  matvec :: "'a pyval option"
  rmatvec :: "'a pyval option"
  matmat :: "'a pyval option"
  dtype :: "string option"

definition new_instance :: "'a LinearOperator" where
  "new_instance = \<lparr>shape = None, matvec = None, rmatvec = None, matmat = None, dtype = None\<rparr>"

text \<open>The stand-in stored when no \<^verbatim>\<open>rmatvec\<close> is given.\<close>

definition rmatvec_undefined :: "'a ndarray \<Rightarrow> error + 'a ndarray" where
  "rmatvec_undefined v = Inl (NotImplementedError ''rmatvec is not defined'')"

text \<open>
  A list comprehension calls the function on each item from left to right; the
  first exception ends it.
\<close>

fun map_calls :: "('b \<Rightarrow> error + 'c) \<Rightarrow> 'b list \<Rightarrow> error + 'c list" where
  "map_calls f [] = Inr []"
| "map_calls f (x # xs) =
     (case f x of
        Inl e \<Rightarrow> Inl e
      | Inr y \<Rightarrow> (case map_calls f xs of Inl e \<Rightarrow> Inl e | Inr ys \<Rightarrow> Inr (y # ys)))"

text \<open>
  The \<^verbatim>\<open>matmat\<close> stored when none is given:
  \<^verbatim>\<open>hstack([matvec(col.reshape(-1,1)) for col in asarray(V).T])\<close>.
\<close>

definition matmat_default :: "'a pyval \<Rightarrow> 'a ndarray \<Rightarrow> error + 'a ndarray" where
  "matmat_default mv V =
     (case nd_iter (nd_transpose (asarray V)) of
        Inl e \<Rightarrow> Inl e
      | Inr cols \<Rightarrow>
          (case map_calls (\<lambda>col. py_call mv (reshape_column col)) cols of
             Inl e \<Rightarrow> Inl e
           | Inr rs \<Rightarrow> hstack rs))"

text \<open>
  \<^verbatim>\<open>__init__(self, shape, matvec, rmatvec=None, matmat=None, dtype=None)\<close>
  returns the outcome and the instance as the body left it.
\<close>

definition LinearOperator_init ::
  "'a numpy \<Rightarrow> 'a LinearOperator \<Rightarrow> 'a pyval \<Rightarrow> 'a pyval \<Rightarrow> 'a pyval \<Rightarrow> 'a pyval
     \<Rightarrow> 'a pyval \<Rightarrow> (error + unit) \<times> 'a LinearOperator" where
  "LinearOperator_init np self shp mv rmv mm dt =
     (case py_tuple shp of
        Inl e \<Rightarrow> (Inl e, self)
      | Inr items \<Rightarrow>
          if \<not> isshape items then (Inl (ValueError ''invalid shape''), self)
          else
            let self1 = self\<lparr>shape := Some (PTuple items)\<rparr>;
                self2 = self1\<lparr>matvec := Some mv\<rparr>;
                self3 = self2\<lparr>rmatvec :=
                          Some (case rmv of PNone \<Rightarrow> PFun rmatvec_undefined | _ \<Rightarrow> rmv)\<rparr>;
                self4 = self3\<lparr>matmat :=
                          Some (case mm of PNone \<Rightarrow> PFun (matmat_default mv) | _ \<Rightarrow> mm)\<rparr>
            in (case dt of
                  PNone \<Rightarrow> (Inr (), self4)
                | _ \<Rightarrow> (case numpy_dtype np dt of
                          Inl e \<Rightarrow> (Inl e, self4)
                        | Inr name \<Rightarrow> (Inr (), self4\<lparr>dtype := Some name\<rparr>))))"

text \<open>The call \<^verbatim>\<open>LinearOperator(...)\<close>: a new instance, initialised.\<close>

definition LinearOperator_new ::
  "'a numpy \<Rightarrow> 'a pyval \<Rightarrow> 'a pyval \<Rightarrow> 'a pyval \<Rightarrow> 'a pyval \<Rightarrow> 'a pyval
     \<Rightarrow> error + 'a LinearOperator" where
  "LinearOperator_new np shp mv rmv mm dt =
     (case LinearOperator_init np new_instance shp mv rmv mm dt of
        (Inl e, _) \<Rightarrow> Inl e
      | (Inr _, self) \<Rightarrow> Inr self)"

text \<open>Calling a method attribute of an instance.\<close>

definition call_attr :: "'a pyval option \<Rightarrow> 'a ndarray \<Rightarrow> error + 'a ndarray" where
  "call_attr f x =
     (case f of None \<Rightarrow> Inl (AttributeError ''no such attribute'') | Some g \<Rightarrow> py_call g x)"

subsection \<open>The summary string\<close>

text \<open>\<^verbatim>\<open>'%d' % i\<close> prints an integer in decimal.\<close>

definition digit_char :: "nat \<Rightarrow> char" where
  "digit_char n = ''0123456789'' ! (n mod 10)"

fun str_nat :: "nat \<Rightarrow> string" where
  "str_nat n = (if n < 10 then [digit_char n] else str_nat (n div 10) @ [digit_char (n mod 10)])"

definition str_int :: "int \<Rightarrow> string" where
  "str_int i = (if i < 0 then CHR ''-'' # str_nat (nat (- i)) else str_nat (nat i))"

text \<open>\<^verbatim>\<open>'%d' % x\<close> needs a number.\<close>

fun format_d :: "'a pyval \<Rightarrow> error + string" where
  "format_d (PInt i) = Inr (str_int i)"
| "format_d _ = Inl (TypeError ''%d format: a number is required'')"

text \<open>\<^verbatim>\<open>M,N = x\<close> needs an iterable of exactly two items.\<close>

definition unpack2 :: "'a pyval \<Rightarrow> error + ('a pyval \<times> 'a pyval)" where
  "unpack2 x =
     (case py_tuple x of
        Inl e \<Rightarrow> Inl e
      | Inr items \<Rightarrow>
          (case items of
             [m, n] \<Rightarrow> Inr (m, n)
           | _ \<Rightarrow> Inl (ValueError ''wrong number of values to unpack'')))"

definition LinearOperator_repr :: "'a LinearOperator \<Rightarrow> error + string" where
  "LinearOperator_repr self =
     (case shape self of
        None \<Rightarrow> Inl (AttributeError ''shape'')
      | Some s \<Rightarrow>
          (case unpack2 s of
             Inl e \<Rightarrow> Inl e
           | Inr (M, N) \<Rightarrow>
               let dt = (case dtype self of
                           Some name \<Rightarrow> ''dtype='' @ name
                         | None \<Rightarrow> ''unspecified dtype'')
               in (case format_d M of
                     Inl e \<Rightarrow> Inl e
                   | Inr m \<Rightarrow>
                       (case format_d N of
                          Inl e \<Rightarrow> Inl e
                        | Inr n \<Rightarrow>
                            Inr (''<'' @ m @ ''x'' @ n @ '' LinearOperator with '' @ dt @ ''>'')))))"

section \<open>The function aslinearoperator\<close>

text \<open>
  The argument is an instance of \<^verbatim>\<open>LinearOperator\<close>, a numpy \<^verbatim>\<open>ndarray\<close> or
  \<^verbatim>\<open>matrix\<close> (with the name of its dtype), a sparse matrix (with the attributes
  the function reads), or any other object, given by its attributes.
\<close>

record 'a spmatrix =
  sp_shape :: "'a pyval"
  sp_matvec :: "'a pyval"
  sp_rmatvec :: "'a pyval"
  sp_dot :: "'a pyval"
  sp_dtype :: "'a pyval"

datatype 'a pyobj =
    PyLinearOperator "'a LinearOperator"
  | PyNdarray string "'a ndarray"
  | PyMatrix string "'a ndarray"
  | PySpmatrix "'a spmatrix"
  | PyObject "string \<rightharpoonup> 'a pyval"

definition shape_tuple :: "'a ndarray \<Rightarrow> 'b pyval" where
  "shape_tuple a = PTuple (map (\<lambda>d. PInt (int d)) (nd_shape a))"

definition aslinearoperator_dense ::
  "'a numpy \<Rightarrow> string \<Rightarrow> 'a ndarray \<Rightarrow> error + 'a LinearOperator" where
  "aslinearoperator_dense np dt A0 =
     (if length (nd_shape A0) > 2 then Inl (ValueError ''array must have rank <= 2'')
      else
        let A = atleast_2d (asarray A0) in
        LinearOperator_new np (shape_tuple A)
          (PFun (\<lambda>v. np_dot np A v))
          (PFun (\<lambda>v. np_dot np (nd_transpose (nd_conj np A)) v))
          (PFun (\<lambda>V. np_dot np A V))
          (PDtype dt))"

fun aslinearoperator :: "'a numpy \<Rightarrow> 'a pyobj \<Rightarrow> error + 'a LinearOperator" where
  "aslinearoperator np (PyLinearOperator A) = Inr A"
| "aslinearoperator np (PyNdarray dt A) = aslinearoperator_dense np dt A"
| "aslinearoperator np (PyMatrix dt A) = aslinearoperator_dense np dt A"
| "aslinearoperator np (PySpmatrix A) =
     LinearOperator_new np (sp_shape A) (sp_matvec A) (sp_rmatvec A) (sp_dot A) (sp_dtype A)"
| "aslinearoperator np (PyObject A) =
     (case (A ''shape'', A ''matvec'') of
        (Some shp, Some mv) \<Rightarrow>
          let rmv = (case A ''rmatvec'' of Some r \<Rightarrow> r | None \<Rightarrow> PNone);
              dt = (case A ''dtype'' of Some d \<Rightarrow> d | None \<Rightarrow> PNone)
          in LinearOperator_new np shp mv rmv PNone dt
      | _ \<Rightarrow> Inl (TypeError ''type not understood''))"

section \<open>Method calls, columns and example values\<close>

text \<open>
  \<^verbatim>\<open>e.matvec(x)\<close>, \<^verbatim>\<open>e.rmatvec(x)\<close>, \<^verbatim>\<open>e.matmat(x)\<close> and \<^verbatim>\<open>repr(e)\<close> for
  an expression \<open>e\<close> that may itself raise.
\<close>

definition call_matvec :: "error + 'a LinearOperator \<Rightarrow> 'a ndarray \<Rightarrow> error + 'a ndarray" where
  "call_matvec r x = (case r of Inl e \<Rightarrow> Inl e | Inr A \<Rightarrow> call_attr (matvec A) x)"

definition call_rmatvec :: "error + 'a LinearOperator \<Rightarrow> 'a ndarray \<Rightarrow> error + 'a ndarray" where
  "call_rmatvec r x = (case r of Inl e \<Rightarrow> Inl e | Inr A \<Rightarrow> call_attr (rmatvec A) x)"

definition call_matmat :: "error + 'a LinearOperator \<Rightarrow> 'a ndarray \<Rightarrow> error + 'a ndarray" where
  "call_matmat r x = (case r of Inl e \<Rightarrow> Inl e | Inr A \<Rightarrow> call_attr (matmat A) x)"

definition call_repr :: "error + 'a LinearOperator \<Rightarrow> error + string" where
  "call_repr r = (case r of Inl e \<Rightarrow> Inl e | Inr A \<Rightarrow> LinearOperator_repr A)"

text \<open>
  Column \<open>j\<close> of the matrix with \<open>N\<close> rows, \<open>K\<close> columns and row-major entries
  \<open>xs\<close>: its entries, and the \<open>N\<close> by 1 array that holds them.
\<close>

definition column_data :: "nat \<Rightarrow> nat \<Rightarrow> 'a list \<Rightarrow> nat \<Rightarrow> 'a list" where
  "column_data N K xs j = map (\<lambda>i. xs ! (i * K + j)) [0..<N]"

definition nd_column :: "'a ndarray \<Rightarrow> nat \<Rightarrow> 'a ndarray" where
  "nd_column V j =
     (case nd_shape V of
        [N, K] \<Rightarrow> NDArray [N, 1] (column_data N K (nd_data V) j)
      | _ \<Rightarrow> NDArray [0, 1] [])"

text \<open>
  The synthesized \<^verbatim>\<open>matmat\<close> as the specification words it: \<^verbatim>\<open>matvec\<close> on each
  column from left to right, each result reshaped as a column, the columns joined
  from left to right.
\<close>

definition matmat_spec :: "'a pyval \<Rightarrow> 'a ndarray \<Rightarrow> error + 'a ndarray" where
  "matmat_spec mv V =
     (case nd_iter (nd_transpose V) of
        Inl e \<Rightarrow> Inl e
      | Inr cols \<Rightarrow>
          (case map_calls (\<lambda>col. case py_call mv (reshape_column col) of
                                  Inl e \<Rightarrow> Inl e
                                | Inr y \<Rightarrow> Inr (reshape_column y)) cols of
             Inl e \<Rightarrow> Inl e
           | Inr rs \<Rightarrow> concatenate 1 rs))"

text \<open>
  The entries, in row-major order, of the conjugate transpose of the matrix with
  \<open>M\<close> rows, \<open>N\<close> columns and row-major entries \<open>a\<close>: its entry \<open>(j, i)\<close> is the
  conjugate of the entry \<open>(i, j)\<close>.
\<close>

definition hermitian_data :: "('a \<Rightarrow> 'a) \<Rightarrow> nat \<Rightarrow> nat \<Rightarrow> 'a list \<Rightarrow> 'a list" where
  "hermitian_data cj M N a = concat (map (\<lambda>j. map (\<lambda>i. cj (a ! (i * N + j))) [0..<M]) [0..<N])"

text \<open>
  What the dense branch promises of the operator \<open>L\<close> for the matrix with \<open>M\<close>
  rows, \<open>N\<close> columns and row-major entries \<open>a\<close>: the shape \<open>(M, N)\<close>, the dtype,
  and three methods that each call \<^verbatim>\<open>dot\<close> on the matrix, on its conjugate
  transpose for \<^verbatim>\<open>rmatvec\<close>.
\<close>

abbreviation dense_operator ::
  "'a numpy \<Rightarrow> string \<Rightarrow> nat \<Rightarrow> nat \<Rightarrow> 'a list \<Rightarrow> 'a LinearOperator \<Rightarrow> bool" where
  "dense_operator np dt M N a L \<equiv>
     shape L = Some (PTuple [PInt (int M), PInt (int N)])
   \<and> dtype L = Some dt
   \<and> matvec L = Some (PFun (np_dot np (NDArray [M, N] a)))
   \<and> rmatvec L = Some (PFun (np_dot np (NDArray [N, M] (hermitian_data (np_conj np) M N a))))
   \<and> matmat L = Some (PFun (np_dot np (NDArray [M, N] a)))
   \<and> (\<forall>x. call_attr (matvec L) x = np_dot np (NDArray [M, N] a) x)
   \<and> (\<forall>v. call_attr (rmatvec L) v
            = np_dot np (NDArray [N, M] (hermitian_data (np_conj np) M N a)) v)
   \<and> (\<forall>V. call_attr (matmat L) V = np_dot np (NDArray [M, N] a) V)"

text \<open>
  Values of the parameters for the examples.  The product in exact arithmetic: a
  0-d operand scales the other; otherwise the sum runs over the last axis of \<open>a\<close>
  and over the only axis of a 1-d \<open>b\<close> or the second-to-last axis of \<open>b\<close>, and
  these two lengths must agree.  It is what \<^verbatim>\<open>dot\<close> returns where nothing
  overflows and nothing is rounded, as in the examples below.  The table holds a
  few of numpy's names for data types.
\<close>

definition nd_item :: "'a::zero ndarray \<Rightarrow> 'a" where
  "nd_item a = (case nd_data a of [] \<Rightarrow> 0 | x # _ \<Rightarrow> x)"

definition exact_dot :: "'a::semiring_0 ndarray \<Rightarrow> 'a ndarray \<Rightarrow> error + 'a ndarray" where
  "exact_dot a b =
     (let sa = nd_shape a; sb = nd_shape b; xs = nd_data a; ys = nd_data b in
      if sa = [] then Inr (NDArray sb (map (\<lambda>y. nd_item a * y) ys))
      else if sb = [] then Inr (NDArray sa (map (\<lambda>x. x * nd_item b) xs))
      else
        let n = last sa; P = butlast sa in
        if length sb = 1 then
          (if sb \<noteq> [n] then Inl (ValueError ''objects are not aligned'')
           else Inr (NDArray P
                  (map (\<lambda>p. sum_list (map (\<lambda>j. xs ! (p * n + j) * ys ! j) [0..<n]))
                     [0..<prod_list P])))
        else
          let K = last sb; Q = butlast (butlast sb) in
          if last (butlast sb) \<noteq> n then Inl (ValueError ''objects are not aligned'')
          else Inr (NDArray (P @ Q @ [K])
                 (concat (map (\<lambda>p. concat (map (\<lambda>q. map (\<lambda>k.
                      sum_list (map (\<lambda>j. xs ! (p * n + j) * ys ! ((q * n + j) * K + k)) [0..<n]))
                    [0..<K]) [0..<prod_list Q])) [0..<prod_list P]))))"

definition dtype_names :: "(string \<times> string) list" where
  "dtype_names =
    [(''int32'', ''int32''), (''uint16'', ''uint16''), (''float64'', ''float64''),
     (''float'', ''float64''), (''complex128'', ''complex128''), (''f8'', ''float64'')]"

definition numpy_exact :: "('a \<Rightarrow> 'a) \<Rightarrow> 'a::semiring_0 numpy" where
  "numpy_exact cj =
     \<lparr>np_dot = exact_dot, np_conj = cj,
      np_dtype_table = (\<lambda>d. case d of PStr s \<Rightarrow> map_of dtype_names s | _ \<Rightarrow> None)\<rparr>"

text \<open>
  The \<^verbatim>\<open>matvec\<close> of the class's docstring,
  \<^verbatim>\<open>def mv(v): return array([2*v[0], 3*v[1]])\<close>: on a vector of length 2 it
  returns a vector, on a 2 by 1 column a column.
\<close>

definition mv_doc :: "int ndarray \<Rightarrow> error + int ndarray" where
  "mv_doc v =
     (case nd_data v of
        [a, b] \<Rightarrow>
          if nd_shape v = [2] \<or> nd_shape v = [2, 1]
          then Inr (NDArray (nd_shape v) [2 * a, 3 * b])
          else Inl (ValueError ''mv: expected two entries'')
      | _ \<Rightarrow> Inl (ValueError ''mv: expected two entries''))"

text \<open>
  The same operator with a \<^verbatim>\<open>matvec\<close> that flattens its argument first,
  \<^verbatim>\<open>def mv(v): v = v.ravel(); return array([2*v[0], 3*v[1]])\<close>: the result is
  always a vector of length 2.
\<close>

definition mv_flat :: "int ndarray \<Rightarrow> error + int ndarray" where
  "mv_flat v =
     (case nd_data v of
        [a, b] \<Rightarrow> Inr (NDArray [2] [2 * a, 3 * b])
      | _ \<Rightarrow> Inl (ValueError ''mv: expected two entries''))"

definition shape_2x2 :: "'a pyval" where
  "shape_2x2 = PTuple [PInt 2, PInt 2]"

definition identity_2 :: "int ndarray" where
  "identity_2 = NDArray [2, 2] [1, 0, 0, 1]"

text \<open>The instance that \<^verbatim>\<open>LinearOperator((2,2), matvec=mv)\<close> builds.\<close>

definition operator_doc :: "int LinearOperator" where
  "operator_doc =
     \<lparr>shape = Some shape_2x2, matvec = Some (PFun mv_doc),
      rmatvec = Some (PFun rmatvec_undefined),
      matmat = Some (PFun (matmat_default (PFun mv_doc))), dtype = None\<rparr>"

text \<open>An object with the attributes \<^verbatim>\<open>shape\<close> and \<^verbatim>\<open>matvec\<close> and the others given.\<close>

definition duck_object ::
  "'a pyval \<Rightarrow> 'a pyval \<Rightarrow> (string \<times> 'a pyval) list \<Rightarrow> 'a pyobj" where
  "duck_object shp mv others =
     PyObject (map_of ((''shape'', shp) # (''matvec'', mv) # others))"

text \<open>
  Dense arrays: the matrix \<open>[[2, 0], [0, 3i]]\<close>, the vector \<open>[1, 2]\<close>, the 0-d array
  \<open>5\<close> and a 2 by 2 by 2 array.
\<close>

definition dense_diag :: "complex ndarray" where
  "dense_diag = NDArray [2, 2] [2, 0, 0, 3 * \<i>]"

definition dense_vector :: "complex ndarray" where
  "dense_vector = NDArray [2] [1, 2]"

definition dense_scalar :: "complex ndarray" where
  "dense_scalar = NDArray [] [5]"

definition dense_rank3 :: "complex ndarray" where
  "dense_rank3 = NDArray [2, 2, 2] [1, 2, 3, 4, 5, 6, 7, 8]"

definition cmv :: "complex ndarray \<Rightarrow> error + complex ndarray" where
  "cmv v = Inr v"

definition np_int :: "int numpy" where
  "np_int = numpy_exact id"

definition np_complex :: "complex numpy" where
  "np_complex = numpy_exact cnj"

section \<open>Facts about lists and arrays\<close>

text \<open>Equal-sized chunks of a concatenation.\<close>

lemma concat_chunk:
  "\<forall>ys\<in>set xss. length ys = n \<Longrightarrow> k < length xss \<Longrightarrow>
     take n (drop (k * n) (concat xss)) = xss ! k"
proof (induction xss arbitrary: k)
  case Nil
  then show ?case by simp
next
  case (Cons x xss)
  show ?case
  proof (cases k)
    case 0
    with Cons.prems show ?thesis by simp
  next
    case (Suc k')
    with Cons.prems have "k' < length xss" by simp
    moreover have "drop (k * n) (concat (x # xss)) = drop (k' * n) (concat xss)"
      using Cons.prems Suc by simp
    ultimately show ?thesis using Cons.IH [of k'] Cons.prems Suc by simp
  qed
qed

lemma concat_chunk_map:
  assumes "\<And>j. j < K \<Longrightarrow> length (f j) = n" and "k < K"
  shows "take n (drop (k * n) (concat (map f [0..<K]))) = f k"
  using concat_chunk [of "map f [0..<K]" n k] assms by simp

text \<open>Transposing an array of rank 1 or 2.\<close>

lemma transpose_data_1d: "length ys = N \<Longrightarrow> transpose_data [N] ys = ys"
proof -
  assume len: "length ys = N"
  have "map (\<lambda>k. transpose_data [] (last_axis N k ys)) [0..<N] = map (\<lambda>k. [ys ! k]) [0..<N]"
  proof (rule map_cong [OF refl])
    fix k assume "k \<in> set [0..<N]"
    then have "0 < N" by auto
    then have "length ys div N = 1" using len by simp
    then show "transpose_data [] (last_axis N k ys) = [ys ! k]"
      by (simp add: last_axis_def)
  qed
  then have "concat (map (\<lambda>k. transpose_data [] (last_axis N k ys)) [0..<N])
      = concat (map (\<lambda>k. [ys ! k]) [0..<N])"
    by (rule arg_cong)
  then have "transpose_data [N] ys = map (\<lambda>k. ys ! k) [0..<N]"
    by (simp only: transpose_data.simps concat_map_singleton)
  then show ?thesis using len map_nth [of ys] by simp
qed

lemma last_axis_2d:
  "length xs = N * K \<Longrightarrow> 0 < K \<Longrightarrow> last_axis K k xs = map (\<lambda>m. xs ! (m * K + k)) [0..<N]"
  by (simp add: last_axis_def)

lemma transpose_data_2d:
  assumes "length xs = N * K"
  shows "transpose_data [K, N] xs = concat (map (column_data N K xs) [0..<K])"
proof -
  have "map (\<lambda>k. transpose_data [N] (last_axis K k xs)) [0..<K] = map (column_data N K xs) [0..<K]"
  proof (rule map_cong [OF refl])
    fix k assume "k \<in> set [0..<K]"
    then have "0 < K" by auto
    then have la: "last_axis K k xs = column_data N K xs k"
      using assms by (simp add: last_axis_2d column_data_def)
    have "length (column_data N K xs k) = N" by (simp add: column_data_def)
    then show "transpose_data [N] (last_axis K k xs) = column_data N K xs k"
      using la transpose_data_1d by metis
  qed
  then have "concat (map (\<lambda>k. transpose_data [N] (last_axis K k xs)) [0..<K])
      = concat (map (column_data N K xs) [0..<K])"
    by (rule arg_cong)
  then show ?thesis by (simp only: transpose_data.simps(2) [of K])
qed

lemma nd_iter_transpose_2d:
  assumes "nd_shape V = [N, K]" and "nd_wf V"
  shows "nd_iter (nd_transpose V) = Inr (map (\<lambda>j. NDArray [N] (column_data N K (nd_data V) j)) [0..<K])"
proof -
  have len: "length (nd_data V) = N * K" using assms by (simp add: nd_wf_def)
  have tr: "nd_transpose V = NDArray [K, N] (concat (map (column_data N K (nd_data V)) [0..<K]))"
    using assms(1) transpose_data_2d [OF len] by (simp add: nd_transpose_def)
  have "\<And>j. j < K \<Longrightarrow>
      take N (drop (j * N) (concat (map (column_data N K (nd_data V)) [0..<K])))
        = column_data N K (nd_data V) j"
    by (rule concat_chunk_map) (simp_all add: column_data_def)
  then show ?thesis by (simp add: tr nd_iter_def)
qed


text \<open>Calls in sequence, and joining columns.\<close>

lemma map_calls_map: "map_calls f (map g xs) = map_calls (\<lambda>x. f (g x)) xs"
  by (induction xs) (simp_all split: sum.splits)

lemma map_calls_all_Inr:
  "\<forall>x\<in>set xs. f x = Inr (g x) \<Longrightarrow> map_calls f xs = Inr (map g xs)"
  by (induction xs) simp_all

lemma take1_drop: "i < length xs \<Longrightarrow> take (Suc 0) (drop i xs) = [xs ! i]"
  by (simp add: take_Suc_conv_app_nth)

lemma sum_list_map_one: "sum_list (map (\<lambda>x. Suc 0) xs) = length xs"
  by (induction xs) simp_all

lemma concatenate_columns:
  assumes ne: "arrs \<noteq> []"
    and cols: "\<forall>a\<in>set arrs. nd_shape a = [M, 1] \<and> length (nd_data a) = M"
  shows "concatenate 1 arrs
         = Inr (NDArray [M, length arrs] (concat (map (\<lambda>i. map (\<lambda>a. nd_data a ! i) arrs) [0..<M])))"
proof -
  obtain a0 rest where arrs: "arrs = a0 # rest" using ne by (cases arrs) auto
  have s0: "nd_shape a0 = [M, 1]" using cols arrs by simp
  have ok: "\<not> list_ex (\<lambda>a. length (nd_shape a) \<noteq> length [M, 1::nat]
                            \<or> (nd_shape a)[1 := 0] \<noteq> [M, 1::nat][1 := 0]) arrs"
    using cols by (auto simp: list_ex_iff)
  have total: "sum_list (map (\<lambda>a. nd_shape a ! 1) arrs) = length arrs"
    using cols by (induction arrs) simp_all
  let ?block = "\<lambda>i a. take (prod_list (drop 1 (nd_shape a)))
                        (drop (i * prod_list (drop 1 (nd_shape a))) (nd_data a))"
  have "map (\<lambda>i. concat (map (?block i) arrs)) [0..<M]
        = map (\<lambda>i. map (\<lambda>a. nd_data a ! i) arrs) [0..<M]"
  proof (rule map_cong [OF refl])
    fix i assume "i \<in> set [0..<M]"
    then have i: "i < M" by simp
    have "map (?block i) arrs = map (\<lambda>a. [nd_data a ! i]) arrs"
      using i cols by (intro map_cong [OF refl]) (simp add: take1_drop)
    then show "concat (map (?block i) arrs) = map (\<lambda>a. nd_data a ! i) arrs"
      by (simp only: concat_map_singleton)
  qed
  then have blocks: "concat (map (\<lambda>i. concat (map (?block i) arrs)) [0..<M])
        = concat (map (\<lambda>i. map (\<lambda>a. nd_data a ! i) arrs) [0..<M])"
    by (rule arg_cong)
  have "concatenate 1 arrs
        = Inr (NDArray ([M, 1][1 := sum_list (map (\<lambda>a. nd_shape a ! 1) arrs)])
             (concat (map (\<lambda>i. concat (map (?block i) arrs)) [0..<prod_list (take 1 [M, 1])])))"
    using ok by (simp add: concatenate_def arrs s0 Let_def)
  also have "\<dots> = Inr (NDArray [M, length arrs]
             (concat (map (\<lambda>i. concat (map (?block i) arrs)) [0..<M])))"
    using total by simp
  finally show ?thesis by (simp only: blocks)
qed

lemma hstack_columns:
  assumes "0 < K" and "\<And>j. j < K \<Longrightarrow> length (r j) = M"
  shows "hstack (map (\<lambda>j. NDArray [M, 1] (r j)) [0..<K])
         = Inr (NDArray [M, K] (concat (map (\<lambda>i. map (\<lambda>j. r j ! i) [0..<K]) [0..<M])))"
proof -
  let ?arrs = "map (\<lambda>j. NDArray [M, 1] (r j)) [0..<K]"
  have a1: "map atleast_1d ?arrs = ?arrs" by simp
  obtain rest where hd: "?arrs = NDArray [M, 1] (r 0) # rest"
    using assms(1) by (simp add: upt_rec [of 0 K])
  have ne: "?arrs \<noteq> []" using assms(1) by simp
  have "concatenate 1 ?arrs
        = Inr (NDArray [M, length ?arrs] (concat (map (\<lambda>i. map (\<lambda>a. nd_data a ! i) ?arrs) [0..<M])))"
    using ne assms(2) by (intro concatenate_columns) simp_all
  then have cat: "concatenate 1 ?arrs
        = Inr (NDArray [M, K] (concat (map (\<lambda>i. map (\<lambda>j. r j ! i) [0..<K]) [0..<M])))"
    by (simp add: comp_def)
  have "hstack ?arrs = concatenate 1 ?arrs"
    unfolding hstack_def Let_def a1 by (subst hd) simp
  then show ?thesis using cat by simp
qed


section \<open>What the constructor stores\<close>

text \<open>
  When the constructor returns, the shape argument was an iterable whose items pass
  \<open>isshape\<close>, and every attribute holds what the body assigned to it.
\<close>

lemma LinearOperator_new_fields:
  assumes "LinearOperator_new np shp mv rmv mm dt = Inr A"
  shows "\<exists>items. py_tuple shp = Inr items \<and> isshape items
           \<and> shape A = Some (PTuple items)
           \<and> matvec A = Some mv
           \<and> rmatvec A = Some (case rmv of PNone \<Rightarrow> PFun rmatvec_undefined | _ \<Rightarrow> rmv)
           \<and> matmat A = Some (case mm of PNone \<Rightarrow> PFun (matmat_default mv) | _ \<Rightarrow> mm)
           \<and> (case dt of
                 PNone \<Rightarrow> dtype A = None
               | _ \<Rightarrow> (\<exists>name. numpy_dtype np dt = Inr name \<and> dtype A = Some name))"
  using assms
  by (cases dt)
     (auto simp: LinearOperator_new_def LinearOperator_init_def new_instance_def Let_def
           split: sum.splits if_splits)

section \<open>The synthesized matmat\<close>

text \<open>On a matrix, the synthesized \<^verbatim>\<open>matmat\<close> visits the columns from left to right.\<close>

lemma matmat_default_2d:
  assumes "nd_shape V = [N, K]" and "nd_wf V"
  shows "matmat_default mv V =
           (case map_calls (\<lambda>j. py_call mv (nd_column V j)) [0..<K] of
              Inl e \<Rightarrow> Inl e
            | Inr rs \<Rightarrow> hstack rs)"
proof -
  have "map_calls (\<lambda>col. py_call mv (reshape_column col))
          (map (\<lambda>j. NDArray [N] (column_data N K (nd_data V) j)) [0..<K])
        = map_calls (\<lambda>j. py_call mv (nd_column V j)) [0..<K]"
    using assms(1)
    by (simp add: map_calls_map reshape_column_def nd_size_def nd_column_def)
  then show ?thesis
    using nd_iter_transpose_2d [OF assms]
    by (simp add: matmat_default_def asarray_def)
qed

text \<open>
  C1 (as amended).  For an operator constructed without \<^verbatim>\<open>matmat\<close> and a
  well-formed matrix \<open>V\<close> with \<open>N\<close> rows and \<open>K\<close> columns, \<^verbatim>\<open>matmat(V)\<close> calls
  \<^verbatim>\<open>matvec\<close> once per column, from left to right, on the column as an \<open>N\<close> by 1
  array, and is \<^verbatim>\<open>hstack\<close> of the results as they are returned (the first
  exception ends it).  The results are not reshaped: when \<open>K\<close> is positive and
  every result is an \<open>M\<close> by 1 column, \<^verbatim>\<open>matmat(V)\<close> is the \<open>M\<close> by \<open>K\<close> matrix
  whose column \<open>j\<close> is, entry for entry, the result for column \<open>j\<close>.  For a
  matrix with no columns there is nothing to join and \<^verbatim>\<open>hstack\<close> raises
  \<^verbatim>\<open>ValueError\<close>.
\<close>

theorem matmat_default_columnwise:
  assumes new: "LinearOperator_new np shp mv rmv PNone dt = Inr A"
    and shape_V: "nd_shape V = [N, K]" and wf_V: "nd_wf V"
  shows "call_attr (matmat A) V =
           (case map_calls (\<lambda>j. py_call mv (nd_column V j)) [0..<K] of
              Inl e \<Rightarrow> Inl e
            | Inr rs \<Rightarrow> hstack rs)
         \<and> (0 < K \<and> (\<forall>j<K. py_call mv (nd_column V j) = Inr (NDArray [M, 1] (r j))
                              \<and> length (r j) = M)
              \<longrightarrow> call_attr (matmat A) V
                    = Inr (NDArray [M, K] (concat (map (\<lambda>i. map (\<lambda>j. r j ! i) [0..<K]) [0..<M]))))
         \<and> (K = 0 \<longrightarrow> (\<exists>msg. call_attr (matmat A) V = Inl (ValueError msg)))"
proof -
  have "matmat A = Some (PFun (matmat_default mv))"
    using LinearOperator_new_fields [OF new] by auto
  then have call: "call_attr (matmat A) V = matmat_default mv V"
    by (simp add: call_attr_def)
  have general: "call_attr (matmat A) V =
           (case map_calls (\<lambda>j. py_call mv (nd_column V j)) [0..<K] of
              Inl e \<Rightarrow> Inl e
            | Inr rs \<Rightarrow> hstack rs)"
    using call matmat_default_2d [OF shape_V wf_V] by simp
  have "call_attr (matmat A) V
          = Inr (NDArray [M, K] (concat (map (\<lambda>i. map (\<lambda>j. r j ! i) [0..<K]) [0..<M])))"
    if K: "0 < K"
      and res: "\<forall>j<K. py_call mv (nd_column V j) = Inr (NDArray [M, 1] (r j)) \<and> length (r j) = M"
  proof -
    have "map_calls (\<lambda>j. py_call mv (nd_column V j)) [0..<K]
            = Inr (map (\<lambda>j. NDArray [M, 1] (r j)) [0..<K])"
      using res by (intro map_calls_all_Inr) simp
    then show ?thesis
      using general hstack_columns [of K r M] K res by simp
  qed
  moreover have "\<exists>msg. call_attr (matmat A) V = Inl (ValueError msg)" if "K = 0"
    using general that by (simp add: hstack_def)
  ultimately show ?thesis using general by blast
qed

text \<open>
  The docstring's operator on the identity matrix: both columns are passed as
  2 by 1 arrays, and the result is \<open>[[2, 0], [0, 3]]\<close>.
\<close>

theorem matmat_default_columnwise_witness:
  "LinearOperator_new np_int shape_2x2 (PFun mv_doc) PNone PNone PNone = Inr operator_doc
   \<and> nd_shape identity_2 = [2, 2] \<and> nd_wf identity_2
   \<and> call_attr (matmat operator_doc) identity_2 = Inr (NDArray [2, 2] [2, 0, 0, 3])"
proof -
  have new: "LinearOperator_new np_int shape_2x2 (PFun mv_doc) PNone PNone PNone = Inr operator_doc"
    by (simp add: LinearOperator_new_def LinearOperator_init_def new_instance_def
          operator_doc_def shape_2x2_def)
  have sh: "nd_shape identity_2 = [2, 2]" by (simp add: identity_2_def)
  have wf: "nd_wf identity_2" by (simp add: identity_2_def nd_wf_def)
  have pos: "0 < (2::nat)" by simp
  have cols: "\<forall>j<2. py_call (PFun mv_doc) (nd_column identity_2 j)
                  = Inr (NDArray [2, 1] ((\<lambda>j. if j = 0 then [2, 0] else [0, 3]) j))
                \<and> length ((\<lambda>j. if j = 0 then [2, 0::int] else [0, 3]) j) = 2"
    by (simp add: less_2_cases_iff nd_column_def identity_2_def column_data_def mv_doc_def upt_rec)
  have "call_attr (matmat operator_doc) identity_2
          = Inr (NDArray [2, 2] (concat (map (\<lambda>i. map (\<lambda>j. (if j = 0 then [2, 0] else [0, 3]) ! i)
                  [0..<2]) [0..<2])))"
    using matmat_default_columnwise
            [OF new sh wf, where M = 2 and r = "\<lambda>j. if j = 0 then [2, 0] else [0, 3]"]
          cols pos
    by blast
  then show ?thesis using new sh wf by (simp add: upt_rec)
qed

text \<open>
  C1 as stated fails: the code reshapes each column before the call and not the
  result of the call.  With a \<^verbatim>\<open>matvec\<close> that returns vectors of length 2,
  \<^verbatim>\<open>hstack\<close> joins them end to end into one vector of length 4, where the
  specification's wording gives the 2 by 2 matrix.
\<close>

theorem matmat_result_not_reshaped_counterexample:
  "call_matmat (LinearOperator_new np_int shape_2x2 (PFun mv_flat) PNone PNone PNone) identity_2
     = Inr (NDArray [4] [2, 0, 0, 3])
   \<and> matmat_spec (PFun mv_flat) identity_2 = Inr (NDArray [2, 2] [2, 0, 0, 3])
   \<and> call_matmat (LinearOperator_new np_int shape_2x2 (PFun mv_flat) PNone PNone PNone) identity_2
     \<noteq> matmat_spec (PFun mv_flat) identity_2"
  by (simp add: call_matmat_def LinearOperator_new_def LinearOperator_init_def new_instance_def
        shape_2x2_def call_attr_def matmat_default_def matmat_spec_def asarray_def nd_iter_def
        nd_transpose_def last_axis_def reshape_column_def nd_size_def mv_flat_def identity_2_def
        hstack_def concatenate_def upt_rec)

section \<open>Errors of the constructor\<close>

text \<open>The exceptions that the constructor's helpers can raise.\<close>

lemma py_tuple_error: "py_tuple x = Inl e \<Longrightarrow> e = TypeError ''object is not iterable''"
  by (cases x) simp_all

lemma numpy_dtype_error:
  "numpy_dtype np x = Inl e \<Longrightarrow> e = TypeError ''data type not understood''"
  by (auto simp: numpy_dtype_def split: pyval.splits option.splits)

lemma isshape_items: "isshape items \<Longrightarrow> \<exists>M N. items = [PInt M, PInt N] \<and> 0 \<le> M \<and> 0 \<le> N"
  by (erule isshape.elims) simp_all

text \<open>
  The constructor raises nothing else, and returns when the shape is valid and the
  dtype is omitted or accepted by \<^verbatim>\<open>numpy.dtype\<close>.
\<close>

lemma LinearOperator_init_errors:
  assumes "LinearOperator_init np self shp mv rmv mm dt = (Inl e, self')"
  shows "e = TypeError ''object is not iterable'' \<or> e = ValueError ''invalid shape''
         \<or> e = TypeError ''data type not understood''"
  using assms
  by (cases dt)
     (auto simp: LinearOperator_init_def Let_def
           split: sum.splits if_splits option.splits dest: py_tuple_error numpy_dtype_error)

lemma LinearOperator_new_succeeds:
  assumes "py_tuple shp = Inr items" and "isshape items"
    and "dt = PNone \<or> numpy_dtype np dt = Inr name"
  shows "\<exists>A. LinearOperator_new np shp mv rmv mm dt = Inr A"
  using assms
  by (cases dt) (auto simp: LinearOperator_new_def LinearOperator_init_def Let_def)

section \<open>The default rmatvec\<close>

text \<open>
  C3 (as amended).  For every operator constructed without \<^verbatim>\<open>rmatvec\<close>, the
  attribute \<^verbatim>\<open>rmatvec\<close> holds a callable (the stand-in, not \<^verbatim>\<open>None\<close>), and
  calling it on any input raises \<^verbatim>\<open>NotImplementedError\<close> with the message
  \<^verbatim>\<open>rmatvec is not defined\<close>.  The constructor itself never raises
  \<^verbatim>\<open>NotImplementedError\<close>, and it returns whenever the shape is valid and no
  dtype is given.
\<close>

theorem rmatvec_default_raises:
  "(LinearOperator_new np shp mv PNone mm dt = Inr A \<longrightarrow>
      rmatvec A = Some (PFun rmatvec_undefined)
      \<and> call_attr (rmatvec A) v = Inl (NotImplementedError ''rmatvec is not defined''))
   \<and> LinearOperator_new np shp mv PNone mm dt \<noteq> Inl (NotImplementedError msg)
   \<and> (py_tuple shp = Inr items \<and> isshape items \<longrightarrow>
        (\<exists>B. LinearOperator_new np shp mv PNone mm PNone = Inr B))"
proof (intro conjI impI)
  assume new: "LinearOperator_new np shp mv PNone mm dt = Inr A"
  show stored: "rmatvec A = Some (PFun rmatvec_undefined)"
    using LinearOperator_new_fields [OF new] by auto
  show "call_attr (rmatvec A) v = Inl (NotImplementedError ''rmatvec is not defined'')"
    by (simp add: stored call_attr_def rmatvec_undefined_def)
next
  show "LinearOperator_new np shp mv PNone mm dt \<noteq> Inl (NotImplementedError msg)"
  proof
    assume raised: "LinearOperator_new np shp mv PNone mm dt = Inl (NotImplementedError msg)"
    obtain r self' where init: "LinearOperator_init np new_instance shp mv PNone mm dt = (r, self')"
      by (cases "LinearOperator_init np new_instance shp mv PNone mm dt") auto
    with raised have "r = Inl (NotImplementedError msg)"
      by (cases r) (simp_all add: LinearOperator_new_def)
    with init show False using LinearOperator_init_errors by fastforce
  qed
next
  assume "py_tuple shp = Inr items \<and> isshape items"
  then show "\<exists>B. LinearOperator_new np shp mv PNone mm PNone = Inr B"
    using LinearOperator_new_succeeds by blast
qed

text \<open>The docstring's call \<^verbatim>\<open>LinearOperator((2,2), matvec=mv)\<close>.\<close>

lemma new_operator_doc:
  "LinearOperator_new np_int shape_2x2 (PFun mv_doc) PNone PNone PNone = Inr operator_doc"
  by (simp add: LinearOperator_new_def LinearOperator_init_def new_instance_def
        operator_doc_def shape_2x2_def)

text \<open>The docstring's operator has no \<^verbatim>\<open>rmatvec\<close>: the call raises.\<close>

theorem rmatvec_default_raises_witness:
  "LinearOperator_new np_int shape_2x2 (PFun mv_doc) PNone PNone PNone = Inr operator_doc
   \<and> rmatvec operator_doc = Some (PFun rmatvec_undefined)
   \<and> call_attr (rmatvec operator_doc) (NDArray [2] [1, 1])
       = Inl (NotImplementedError ''rmatvec is not defined'')"
  using rmatvec_default_raises
          [where np = np_int and shp = shape_2x2 and mv = "PFun mv_doc" and mm = PNone
             and dt = PNone and A = operator_doc and v = "NDArray [2] [1, 1]"] new_operator_doc
  by blast

text \<open>
  C3 as stated fails on the message: the exception carries
  \<^verbatim>\<open>rmatvec is not defined\<close>, not the message the claim quotes.
\<close>

theorem rmatvec_message_counterexample:
  "call_rmatvec (LinearOperator_new np_int shape_2x2 (PFun mv_doc) PNone PNone PNone) (NDArray [2] [1, 1])
     = Inl (NotImplementedError ''rmatvec is not defined'')
   \<and> call_rmatvec (LinearOperator_new np_int shape_2x2 (PFun mv_doc) PNone PNone PNone) (NDArray [2] [1, 1])
     \<noteq> Inl (NotImplementedError ''Hermitian-transpose action is not defined'')"
  by (simp add: new_operator_doc call_rmatvec_def call_attr_def operator_doc_def
        rmatvec_undefined_def)

section \<open>Invalid shapes\<close>

text \<open>
  C4 (as amended).  For every shape argument that is iterable and whose items do
  not satisfy the shape-validity predicate, the constructor raises
  \<^verbatim>\<open>ValueError('invalid shape')\<close> and the instance is as it was before: no
  attribute has been set.  For a shape argument that is not iterable,
  \<^verbatim>\<open>tuple(shape)\<close> raises \<^verbatim>\<open>TypeError\<close>, also before any attribute is set.
\<close>

theorem init_invalid_shape:
  "(py_tuple shp = Inr items \<and> \<not> isshape items \<longrightarrow>
      LinearOperator_init np self shp mv rmv mm dt = (Inl (ValueError ''invalid shape''), self)
      \<and> LinearOperator_new np shp mv rmv mm dt = Inl (ValueError ''invalid shape''))
   \<and> (py_tuple shp = Inl e \<longrightarrow>
        LinearOperator_init np self shp mv rmv mm dt = (Inl e, self)
        \<and> e = TypeError ''object is not iterable'')"
  by (auto simp: LinearOperator_init_def LinearOperator_new_def dest: py_tuple_error)

text \<open>The shape \<open>(2, -1)\<close> is rejected as invalid; the shape \<open>5\<close> is not iterable.\<close>

theorem init_invalid_shape_witness:
  "py_tuple (PTuple [PInt 2, PInt (- 1)] :: int pyval) = Inr [PInt 2, PInt (- 1)]
   \<and> \<not> isshape [PInt 2, PInt (- 1) :: int pyval]
   \<and> LinearOperator_init np_int new_instance (PTuple [PInt 2, PInt (- 1)]) (PFun mv_doc) PNone PNone PNone
       = (Inl (ValueError ''invalid shape''), new_instance)
   \<and> py_tuple (PInt 5 :: int pyval) = Inl (TypeError ''object is not iterable'')
   \<and> LinearOperator_init np_int new_instance (PInt 5) (PFun mv_doc) PNone PNone PNone
       = (Inl (TypeError ''object is not iterable''), new_instance)"
proof -
  have a: "py_tuple (PTuple [PInt 2, PInt (- 1)] :: int pyval) = Inr [PInt 2, PInt (- 1)]" by simp
  have b: "\<not> isshape [PInt 2, PInt (- 1) :: int pyval]" by simp
  have c: "py_tuple (PInt 5 :: int pyval) = Inl (TypeError ''object is not iterable'')" by simp
  show ?thesis
    using a b c
      init_invalid_shape
        [where shp = "PTuple [PInt 2, PInt (- 1)]" and items = "[PInt 2, PInt (- 1)]"
           and np = np_int and self = new_instance and mv = "PFun mv_doc" and rmv = PNone
           and mm = PNone and dt = PNone and e = "TypeError ''x''"]
      init_invalid_shape
        [where shp = "PInt 5" and items = "[]" and np = np_int and self = new_instance
           and mv = "PFun mv_doc" and rmv = PNone and mm = PNone and dt = PNone
           and e = "TypeError ''object is not iterable''"]
    by blast
qed

text \<open>
  C4 as stated fails: the integer 5 is not a sequence of two non-negative
  integers, and the constructor raises \<^verbatim>\<open>TypeError\<close> for it, not the invalid-shape
  \<^verbatim>\<open>ValueError\<close>.
\<close>

theorem init_shape_not_iterable_counterexample:
  "LinearOperator_init np_int new_instance (PInt 5) (PFun mv_doc) PNone PNone PNone
     = (Inl (TypeError ''object is not iterable''), new_instance)
   \<and> fst (LinearOperator_init np_int new_instance (PInt 5) (PFun mv_doc) PNone PNone PNone)
     \<noteq> Inl (ValueError ''invalid shape'')"
  by (simp add: LinearOperator_init_def)

section \<open>Dense arrays of rank above 2\<close>

text \<open>
  C6.  For every dense array or matrix with more than two dimensions,
  \<^verbatim>\<open>aslinearoperator\<close> raises \<^verbatim>\<open>ValueError('array must have rank <= 2')\<close>; the
  result is the exception, no operator is constructed.
\<close>

theorem dense_rank_above_2:
  "2 < length (nd_shape A) \<Longrightarrow>
     aslinearoperator np (PyNdarray dt A) = Inl (ValueError ''array must have rank <= 2'')
     \<and> aslinearoperator np (PyMatrix dt A) = Inl (ValueError ''array must have rank <= 2'')"
  by (simp add: aslinearoperator_dense_def)

text \<open>A 2 by 2 by 2 array is refused.\<close>

theorem dense_rank_above_2_witness:
  "2 < length (nd_shape dense_rank3)
   \<and> aslinearoperator np_complex (PyNdarray ''float64'' dense_rank3)
       = Inl (ValueError ''array must have rank <= 2'')"
proof -
  have "2 < length (nd_shape dense_rank3)" by (simp add: dense_rank3_def)
  then show ?thesis using dense_rank_above_2 [where A = dense_rank3 and np = np_complex and dt = "''float64''"] by blast
qed

section \<open>Values of no recognised kind\<close>

text \<open>
  C7.  For every value that is not a \<^verbatim>\<open>LinearOperator\<close>, not a dense array or
  matrix, not a sparse matrix, and that lacks the attribute \<^verbatim>\<open>shape\<close> or the
  attribute \<^verbatim>\<open>matvec\<close>, \<^verbatim>\<open>aslinearoperator\<close> raises
  \<^verbatim>\<open>TypeError('type not understood')\<close>.
\<close>

theorem unsupported_type:
  "A ''shape'' = None \<or> A ''matvec'' = None \<Longrightarrow>
     aslinearoperator np (PyObject A) = Inl (TypeError ''type not understood'')"
  by (auto split: option.splits)

text \<open>An object with a shape and no \<^verbatim>\<open>matvec\<close>, and an object with no attributes.\<close>

theorem unsupported_type_witness:
  "(map_of [(''shape'', shape_2x2 :: complex pyval)]) ''matvec'' = None
   \<and> aslinearoperator np_complex (PyObject (map_of [(''shape'', shape_2x2)]))
       = Inl (TypeError ''type not understood'')
   \<and> aslinearoperator np_complex (PyObject Map.empty) = Inl (TypeError ''type not understood'')"
proof -
  have a: "(map_of [(''shape'', shape_2x2 :: complex pyval)]) ''matvec'' = None" by simp
  have b: "(Map.empty :: string \<rightharpoonup> complex pyval) ''shape'' = None" by simp
  show ?thesis
    using a b
      unsupported_type [where A = "map_of [(''shape'', shape_2x2)]" and np = np_complex]
      unsupported_type [where A = Map.empty and np = np_complex]
    by blast
qed

section \<open>Objects with shape and matvec\<close>

text \<open>
  C8 (as amended).  For every object with the attributes \<^verbatim>\<open>shape\<close> and
  \<^verbatim>\<open>matvec\<close>: whenever \<^verbatim>\<open>aslinearoperator\<close> returns an operator, its
  \<^verbatim>\<open>matvec\<close> is the object's; its \<^verbatim>\<open>matmat\<close> is the one synthesized from that
  \<^verbatim>\<open>matvec\<close>, whatever other attributes the object has; its \<^verbatim>\<open>rmatvec\<close> is the
  object's \<^verbatim>\<open>rmatvec\<close> attribute when that is present and not \<^verbatim>\<open>None\<close>, and the
  failing stand-in otherwise; its dtype is \<^verbatim>\<open>numpy.dtype\<close> of the object's
  \<^verbatim>\<open>dtype\<close> attribute when that is present and not \<^verbatim>\<open>None\<close>, and unset otherwise.
  And it does return an operator whenever the shape is valid and the \<^verbatim>\<open>dtype\<close>
  attribute is absent, \<^verbatim>\<open>None\<close>, or a value that \<^verbatim>\<open>numpy.dtype\<close> accepts.
\<close>

theorem duck_typed_fields:
  assumes "A ''shape'' = Some shp" and "A ''matvec'' = Some mv"
  shows "(aslinearoperator np (PyObject A) = Inr L \<longrightarrow>
       matvec L = Some mv
     \<and> matmat L = Some (PFun (matmat_default mv))
     \<and> rmatvec L = Some (case A ''rmatvec'' of
                           None \<Rightarrow> PFun rmatvec_undefined
                         | Some PNone \<Rightarrow> PFun rmatvec_undefined
                         | Some r \<Rightarrow> r)
     \<and> (case A ''dtype'' of
           None \<Rightarrow> dtype L = None
         | Some PNone \<Rightarrow> dtype L = None
         | Some d \<Rightarrow> (\<exists>name. numpy_dtype np d = Inr name \<and> dtype L = Some name)))
   \<and> (py_tuple shp = Inr items \<and> isshape items
        \<and> (A ''dtype'' = None \<or> A ''dtype'' = Some PNone
            \<or> (\<exists>d. A ''dtype'' = Some d \<and> numpy_dtype np d = Inr name))
        \<longrightarrow> (\<exists>B. aslinearoperator np (PyObject A) = Inr B))"
proof (intro conjI impI)
  let ?rmv = "case A ''rmatvec'' of Some r \<Rightarrow> r | None \<Rightarrow> PNone"
  let ?dt = "case A ''dtype'' of Some d \<Rightarrow> d | None \<Rightarrow> PNone"
  assume "aslinearoperator np (PyObject A) = Inr L"
  then have new: "LinearOperator_new np shp mv ?rmv PNone ?dt = Inr L"
    using assms by (simp add: Let_def)
  note f = LinearOperator_new_fields [OF new]
  show "matvec L = Some mv" and "matmat L = Some (PFun (matmat_default mv))"
    using f by auto
  show "rmatvec L = Some (case A ''rmatvec'' of
                           None \<Rightarrow> PFun rmatvec_undefined
                         | Some PNone \<Rightarrow> PFun rmatvec_undefined
                         | Some r \<Rightarrow> r)"
    using f by (auto split: option.splits pyval.splits)
  show "case A ''dtype'' of
           None \<Rightarrow> dtype L = None
         | Some PNone \<Rightarrow> dtype L = None
         | Some d \<Rightarrow> (\<exists>name. numpy_dtype np d = Inr name \<and> dtype L = Some name)"
    using f by (auto split: option.splits pyval.splits)
next
  let ?rmv = "case A ''rmatvec'' of Some r \<Rightarrow> r | None \<Rightarrow> PNone"
  let ?dt = "case A ''dtype'' of Some d \<Rightarrow> d | None \<Rightarrow> PNone"
  assume ok: "py_tuple shp = Inr items \<and> isshape items
        \<and> (A ''dtype'' = None \<or> A ''dtype'' = Some PNone
            \<or> (\<exists>d. A ''dtype'' = Some d \<and> numpy_dtype np d = Inr name))"
  then have "?dt = PNone \<or> numpy_dtype np ?dt = Inr name" by auto
  then have "\<exists>B. LinearOperator_new np shp mv ?rmv PNone ?dt = Inr B"
    using ok LinearOperator_new_succeeds by blast
  then show "\<exists>B. aslinearoperator np (PyObject A) = Inr B"
    using assms by (simp add: Let_def)
qed

text \<open>
  An object with all four attributes, the dtype given by a name: the operator is
  built and holds the object's \<^verbatim>\<open>matvec\<close> and \<^verbatim>\<open>rmatvec\<close>.
\<close>

theorem duck_typed_fields_witness:
  "aslinearoperator np_complex
     (duck_object shape_2x2 (PFun cmv) [(''rmatvec'', PFun cmv), (''dtype'', PStr ''uint16'')])
     = Inr \<lparr>shape = Some shape_2x2, matvec = Some (PFun cmv), rmatvec = Some (PFun cmv),
            matmat = Some (PFun (matmat_default (PFun cmv))), dtype = Some ''uint16''\<rparr>"
proof -
  let ?A = "map_of [(''shape'', shape_2x2), (''matvec'', PFun cmv),
                    (''rmatvec'', PFun cmv), (''dtype'', PStr ''uint16'')]"
  have a: "?A ''shape'' = Some shape_2x2" by simp
  have b: "?A ''matvec'' = Some (PFun cmv)" by simp
  have c: "py_tuple (shape_2x2 :: complex pyval) = Inr [PInt 2, PInt 2]
           \<and> isshape [PInt 2, PInt 2 :: complex pyval]
           \<and> (?A ''dtype'' = None \<or> ?A ''dtype'' = Some PNone
              \<or> (\<exists>d. ?A ''dtype'' = Some d \<and> numpy_dtype np_complex d = Inr ''uint16''))"
    by (simp add: shape_2x2_def numpy_dtype_def np_complex_def numpy_exact_def dtype_names_def)
  obtain B where B: "aslinearoperator np_complex (PyObject ?A) = Inr B"
    using duck_typed_fields
            [OF a b, where items = "[PInt 2, PInt 2]" and np = np_complex and name = "''uint16''"] c
    by blast
  have fields: "matvec B = Some (PFun cmv)
     \<and> matmat B = Some (PFun (matmat_default (PFun cmv)))
     \<and> rmatvec B = Some (PFun cmv)
     \<and> dtype B = Some ''uint16''"
    using duck_typed_fields [OF a b, where np = np_complex and L = B] B
    by (simp add: numpy_dtype_def np_complex_def numpy_exact_def dtype_names_def)
  have "shape B = Some shape_2x2"
    using LinearOperator_new_fields
            [where np = np_complex and shp = shape_2x2 and mv = "PFun cmv" and rmv = "PFun cmv"
               and mm = PNone and dt = "PStr ''uint16''" and A = B] B
    by (auto simp: shape_2x2_def Let_def)
  then have "B = \<lparr>shape = Some shape_2x2, matvec = Some (PFun cmv), rmatvec = Some (PFun cmv),
            matmat = Some (PFun (matmat_default (PFun cmv))), dtype = Some ''uint16''\<rparr>"
    using fields by (cases B) simp
  then show ?thesis using B by (simp add: duck_object_def)
qed

text \<open>
  C8 as stated fails for an attribute that is present and \<^verbatim>\<open>None\<close>: the
  operator's \<^verbatim>\<open>rmatvec\<close> is then the stand-in and not the object's attribute
  (calling the one raises \<^verbatim>\<open>NotImplementedError\<close>, calling the other
  \<^verbatim>\<open>TypeError\<close>).
\<close>

theorem duck_typed_none_attribute_counterexample:
  "call_rmatvec (aslinearoperator np_complex (duck_object shape_2x2 (PFun cmv) [(''rmatvec'', PNone)]))
      (NDArray [2] [1, 1])
     = Inl (NotImplementedError ''rmatvec is not defined'')
   \<and> py_call PNone (NDArray [2] [1, 1 :: complex]) = Inl (TypeError ''object is not callable'')
   \<and> call_rmatvec (aslinearoperator np_complex (duck_object shape_2x2 (PFun cmv) [(''rmatvec'', PNone)]))
      (NDArray [2] [1, 1])
     \<noteq> py_call PNone (NDArray [2] [1, 1])"
  by (simp add: duck_object_def LinearOperator_new_def LinearOperator_init_def new_instance_def
        shape_2x2_def call_rmatvec_def call_attr_def rmatvec_undefined_def)

section \<open>The summary string of an operator\<close>

text \<open>
  C9 (as amended).  For every constructed operator, the shape is a pair of
  non-negative integers \<open>(M, N)\<close> and \<^verbatim>\<open>repr\<close> returns
  \<^verbatim>\<open><MxN LinearOperator with unspecified dtype>\<close> when no dtype was given (the
  attribute \<^verbatim>\<open>dtype\<close> is then absent), and
  \<^verbatim>\<open><MxN LinearOperator with dtype=D>\<close> when one was, \<open>D\<close> the name of
  \<^verbatim>\<open>numpy.dtype\<close> of it; \<open>M\<close> and \<open>N\<close> in decimal, the whole in angle brackets.
  The operator is constructed whenever the shape is valid and the dtype is
  omitted or is a value that \<^verbatim>\<open>numpy.dtype\<close> accepts.
\<close>

theorem repr_format:
  "(LinearOperator_new np shp mv rmv mm dt = Inr A \<longrightarrow>
      (\<exists>M N. py_tuple shp = Inr [PInt M, PInt N] \<and> 0 \<le> M \<and> 0 \<le> N
        \<and> (case dt of
             PNone \<Rightarrow>
               dtype A = None
               \<and> LinearOperator_repr A
                   = Inr (''<'' @ str_int M @ ''x'' @ str_int N
                           @ '' LinearOperator with unspecified dtype>'')
           | _ \<Rightarrow>
               (\<exists>name. numpy_dtype np dt = Inr name \<and> dtype A = Some name
                  \<and> LinearOperator_repr A
                      = Inr (''<'' @ str_int M @ ''x'' @ str_int N
                              @ '' LinearOperator with dtype='' @ name @ ''>'')))))
   \<and> (py_tuple shp = Inr items \<and> isshape items
        \<and> (dt = PNone \<or> numpy_dtype np dt = Inr name')
        \<longrightarrow> (\<exists>B. LinearOperator_new np shp mv rmv mm dt = Inr B))"
proof (intro conjI impI)
  assume new: "LinearOperator_new np shp mv rmv mm dt = Inr A"
  obtain items where items: "py_tuple shp = Inr items" "isshape items"
      "shape A = Some (PTuple items)"
    and dt: "case dt of PNone \<Rightarrow> dtype A = None
             | _ \<Rightarrow> (\<exists>name. numpy_dtype np dt = Inr name \<and> dtype A = Some name)"
    using LinearOperator_new_fields [OF new] by blast
  obtain M N where MN: "items = [PInt M, PInt N]" "0 \<le> M" "0 \<le> N"
    using isshape_items [OF items(2)] by blast
  have "case dt of
          PNone \<Rightarrow>
            dtype A = None
            \<and> LinearOperator_repr A
                = Inr (''<'' @ str_int M @ ''x'' @ str_int N
                        @ '' LinearOperator with unspecified dtype>'')
        | _ \<Rightarrow>
            (\<exists>name. numpy_dtype np dt = Inr name \<and> dtype A = Some name
               \<and> LinearOperator_repr A
                   = Inr (''<'' @ str_int M @ ''x'' @ str_int N
                           @ '' LinearOperator with dtype='' @ name @ ''>''))"
    using dt items(3) MN(1)
    by (cases dt) (auto simp: LinearOperator_repr_def unpack2_def)
  then show "\<exists>M N. py_tuple shp = Inr [PInt M, PInt N] \<and> 0 \<le> M \<and> 0 \<le> N
        \<and> (case dt of
             PNone \<Rightarrow>
               dtype A = None
               \<and> LinearOperator_repr A
                   = Inr (''<'' @ str_int M @ ''x'' @ str_int N
                           @ '' LinearOperator with unspecified dtype>'')
           | _ \<Rightarrow>
               (\<exists>name. numpy_dtype np dt = Inr name \<and> dtype A = Some name
                  \<and> LinearOperator_repr A
                      = Inr (''<'' @ str_int M @ ''x'' @ str_int N
                              @ '' LinearOperator with dtype='' @ name @ ''>'')))"
    using items(1) MN by blast
next
  assume "py_tuple shp = Inr items \<and> isshape items
        \<and> (dt = PNone \<or> numpy_dtype np dt = Inr name')"
  then show "\<exists>B. LinearOperator_new np shp mv rmv mm dt = Inr B"
    using LinearOperator_new_succeeds by blast
qed

text \<open>
  A dtype given by name: \<^verbatim>\<open>LinearOperator((2,2), mv, dtype='uint16')\<close> is
  constructed and prints as \<^verbatim>\<open><2x2 LinearOperator with dtype=uint16>\<close>; with the
  dtype object of the docstring, \<^verbatim>\<open><2x3 LinearOperator with dtype=int32>\<close>.
\<close>

theorem repr_format_witness:
  "call_repr (LinearOperator_new np_int shape_2x2 (PFun mv_doc) PNone PNone (PStr ''uint16''))
     = Inr ''<2x2 LinearOperator with dtype=uint16>''
   \<and> call_repr (LinearOperator_new np_int (PTuple [PInt 2, PInt 3]) (PFun mv_doc) PNone PNone
                  (PDtype ''int32''))
     = Inr ''<2x3 LinearOperator with dtype=int32>''"
proof -
  have t: "py_tuple (shape_2x2 :: int pyval) = Inr [PInt 2, PInt 2]
           \<and> isshape [PInt 2, PInt 2 :: int pyval]
           \<and> (PStr ''uint16'' = (PNone :: int pyval)
              \<or> numpy_dtype np_int (PStr ''uint16'') = Inr ''uint16'')"
    by (simp add: shape_2x2_def numpy_dtype_def np_int_def numpy_exact_def dtype_names_def)
  obtain B where B: "LinearOperator_new np_int shape_2x2 (PFun mv_doc) PNone PNone (PStr ''uint16'')
                       = Inr B"
    using repr_format
            [where np = np_int and shp = shape_2x2 and mv = "PFun mv_doc" and rmv = PNone
               and mm = PNone and dt = "PStr ''uint16''" and items = "[PInt 2, PInt 2]"
               and name' = "''uint16''"] t
    by blast
  have 1: "LinearOperator_repr B = Inr ''<2x2 LinearOperator with dtype=uint16>''"
    using repr_format
            [where np = np_int and shp = shape_2x2 and mv = "PFun mv_doc" and rmv = PNone
               and mm = PNone and dt = "PStr ''uint16''" and A = B] B
    by (auto simp: shape_2x2_def numpy_dtype_def np_int_def numpy_exact_def dtype_names_def
          str_int_def digit_char_def)
  have u: "py_tuple (PTuple [PInt 2, PInt 3] :: int pyval) = Inr [PInt 2, PInt 3]
           \<and> isshape [PInt 2, PInt 3 :: int pyval]
           \<and> (PDtype ''int32'' = (PNone :: int pyval)
              \<or> numpy_dtype np_int (PDtype ''int32'') = Inr ''int32'')"
    by (simp add: numpy_dtype_def)
  obtain C where C: "LinearOperator_new np_int (PTuple [PInt 2, PInt 3]) (PFun mv_doc) PNone PNone
                       (PDtype ''int32'') = Inr C"
    using repr_format
            [where np = np_int and shp = "PTuple [PInt 2, PInt 3]" and mv = "PFun mv_doc"
               and rmv = PNone and mm = PNone and dt = "PDtype ''int32''"
               and items = "[PInt 2, PInt 3]" and name' = "''int32''"] u
    by blast
  have 2: "LinearOperator_repr C = Inr ''<2x3 LinearOperator with dtype=int32>''"
    using repr_format
            [where np = np_int and shp = "PTuple [PInt 2, PInt 3]" and mv = "PFun mv_doc"
               and rmv = PNone and mm = PNone and dt = "PDtype ''int32''" and A = C] C
    by (auto simp: numpy_dtype_def str_int_def digit_char_def)
  show ?thesis using B C 1 2 by (simp add: call_repr_def)
qed

text \<open>
  C9 as stated fails on the text: the docstring's operator prints as
  \<^verbatim>\<open><2x2 LinearOperator with unspecified dtype>\<close>, not as
  \<^verbatim>\<open>2x2 operator with unspecified dtype\<close>.
\<close>

theorem repr_format_counterexample:
  "call_repr (LinearOperator_new np_int shape_2x2 (PFun mv_doc) PNone PNone PNone)
     = Inr ''<2x2 LinearOperator with unspecified dtype>''
   \<and> call_repr (LinearOperator_new np_int shape_2x2 (PFun mv_doc) PNone PNone PNone)
     \<noteq> Inr ''2x2 operator with unspecified dtype''"
  by (simp only: new_operator_doc call_repr_def sum.case)
     (simp add: LinearOperator_repr_def operator_doc_def shape_2x2_def unpack2_def str_int_def
        digit_char_def)

section \<open>Objects with an invalid shape\<close>

text \<open>
  C10 (as amended).  For an object with the attributes \<^verbatim>\<open>shape\<close> and
  \<^verbatim>\<open>matvec\<close>, the shape goes to the constructor: when it is iterable and its
  items are not two non-negative integers, \<^verbatim>\<open>aslinearoperator\<close> raises the
  constructor's \<^verbatim>\<open>ValueError('invalid shape')\<close> and not
  \<^verbatim>\<open>TypeError('type not understood')\<close>; when it is not iterable, the
  \<^verbatim>\<open>TypeError\<close> of \<^verbatim>\<open>tuple(shape)\<close> is raised.
\<close>

theorem duck_typed_invalid_shape:
  assumes "A ''shape'' = Some shp" and "A ''matvec'' = Some mv"
  shows "(py_tuple shp = Inr items \<and> \<not> isshape items \<longrightarrow>
            aslinearoperator np (PyObject A) = Inl (ValueError ''invalid shape''))
       \<and> (py_tuple shp = Inl e \<longrightarrow>
            aslinearoperator np (PyObject A) = Inl e \<and> e = TypeError ''object is not iterable'')"
  using assms
  by (auto simp: Let_def LinearOperator_new_def LinearOperator_init_def dest: py_tuple_error)

text \<open>A shape with one item, and a shape that is a string of two characters.\<close>

theorem duck_typed_invalid_shape_witness:
  "aslinearoperator np_complex (duck_object (PTuple [PInt 2]) (PFun cmv) []) = Inl (ValueError ''invalid shape'')
   \<and> aslinearoperator np_complex (duck_object (PStr ''ab'') (PFun cmv) []) = Inl (ValueError ''invalid shape'')"
proof -
  let ?A = "map_of [(''shape'', PTuple [PInt 2]), (''matvec'', PFun cmv)]"
  let ?B = "map_of [(''shape'', PStr ''ab''), (''matvec'', PFun cmv)]"
  have a: "?A ''shape'' = Some (PTuple [PInt 2])" "?A ''matvec'' = Some (PFun cmv)" by simp_all
  have b: "?B ''shape'' = Some (PStr ''ab'')" "?B ''matvec'' = Some (PFun cmv)" by simp_all
  have c: "py_tuple (PTuple [PInt 2] :: complex pyval) = Inr [PInt 2]
           \<and> \<not> isshape [PInt 2 :: complex pyval]" by simp
  have d: "py_tuple (PStr ''ab'' :: complex pyval) = Inr [PStr ''a'', PStr ''b'']
           \<and> \<not> isshape [PStr ''a'', PStr ''b'' :: complex pyval]" by simp
  show ?thesis
    using
      duck_typed_invalid_shape
        [OF a, where items = "[PInt 2]" and e = "TypeError ''x''" and np = np_complex] c
      duck_typed_invalid_shape
        [OF b, where items = "[PStr ''a'', PStr ''b'']" and e = "TypeError ''x''"
           and np = np_complex] d
    by (simp add: duck_object_def)
qed

text \<open>
  C10 as stated fails for a shape that is not iterable: the integer 5 is not a
  two-element sequence, and the exception is a \<^verbatim>\<open>TypeError\<close>, not the
  invalid-shape \<^verbatim>\<open>ValueError\<close>.
\<close>

theorem duck_typed_shape_not_iterable_counterexample:
  "aslinearoperator np_complex (duck_object (PInt 5) (PFun cmv) []) = Inl (TypeError ''object is not iterable'')
   \<and> aslinearoperator np_complex (duck_object (PInt 5) (PFun cmv) []) \<noteq> Inl (ValueError ''invalid shape'')"
  by (simp add: duck_object_def LinearOperator_new_def LinearOperator_init_def)

section \<open>Dense arrays and matrices\<close>

text \<open>Entries of a concatenation of equal-sized chunks, and of row-major matrices.\<close>

lemma index_bound: "i < (M::nat) \<Longrightarrow> j < N \<Longrightarrow> i * N + j < M * N"
proof -
  assume i: "i < M" and j: "j < N"
  have "i * N + j < i * N + N" using j by simp
  also have "\<dots> = Suc i * N" by simp
  also have "\<dots> \<le> M * N" using i by (intro mult_le_mono1) simp
  finally show ?thesis .
qed

text \<open>
  \<^verbatim>\<open>A.conj().transpose()\<close> of a matrix is its conjugate transpose, entry for
  entry.
\<close>

lemma conj_transpose_2d:
  assumes "length a = M * N"
  shows "nd_transpose (nd_conj np (NDArray [M, N] a))
           = NDArray [N, M] (hermitian_data (np_conj np) M N a)"
proof -
  let ?c = "map (np_conj np) a"
  have "map (column_data M N ?c) [0..<N]
          = map (\<lambda>j. map (\<lambda>i. np_conj np (a ! (i * N + j))) [0..<M]) [0..<N]"
  proof (rule map_cong [OF refl])
    fix j assume "j \<in> set [0..<N]"
    then have j: "j < N" by simp
    show "column_data M N ?c j = map (\<lambda>i. np_conj np (a ! (i * N + j))) [0..<M]"
      unfolding column_data_def
    proof (rule map_cong [OF refl])
      fix i assume "i \<in> set [0..<M]"
      then have "i * N + j < length a" using index_bound [of i M j N] j assms by simp
      then show "?c ! (i * N + j) = np_conj np (a ! (i * N + j))" by simp
    qed
  qed
  then have "concat (map (column_data M N ?c) [0..<N]) = hermitian_data (np_conj np) M N a"
    unfolding hermitian_data_def by (rule arg_cong)
  then have "transpose_data [N, M] ?c = hermitian_data (np_conj np) M N a"
    using transpose_data_2d [of ?c M N] assms by simp
  then show ?thesis by (simp add: nd_transpose_def nd_conj_def)
qed

text \<open>The dense branch on an array whose 2-d layout is known.\<close>

lemma aslinearoperator_dense_layout:
  assumes rank: "length (nd_shape A) \<le> 2"
    and layout: "atleast_2d A = NDArray [M, N] a"
    and len: "length a = M * N"
  shows "\<exists>L. aslinearoperator_dense np dt A = Inr L \<and> dense_operator np dt M N a L"
proof -
  let ?H = "NDArray [N, M] (hermitian_data (np_conj np) M N a)"
  let ?L = "\<lparr>shape = Some (PTuple [PInt (int M), PInt (int N)]),
             matvec = Some (PFun (np_dot np (NDArray [M, N] a))),
             rmatvec = Some (PFun (np_dot np ?H)),
             matmat = Some (PFun (np_dot np (NDArray [M, N] a))),
             dtype = Some dt\<rparr>"
  have "aslinearoperator_dense np dt A = Inr ?L"
    using rank
    by (simp add: aslinearoperator_dense_def asarray_def layout conj_transpose_2d [OF len]
          shape_tuple_def LinearOperator_new_def LinearOperator_init_def new_instance_def
          numpy_dtype_def Let_def)
  moreover have "dense_operator np dt M N a ?L"
    by (simp add: call_attr_def)
  ultimately show ?thesis by blast
qed

text \<open>
  C2.  For every well-formed dense array or matrix \<open>A\<close> of rank at most 2,
  \<^verbatim>\<open>aslinearoperator\<close> returns an operator for the 2-d layout of \<open>A\<close>: 1 by 1 for
  a 0-d array, one row for a vector, \<open>A\<close> itself for a matrix.  Its dtype is
  the array's, and its \<^verbatim>\<open>matvec\<close>, \<^verbatim>\<open>rmatvec\<close> and \<^verbatim>\<open>matmat\<close> are each a call of
  numpy's \<^verbatim>\<open>dot\<close>, none of them synthesized: \<^verbatim>\<open>matvec(x)\<close> is \<^verbatim>\<open>dot\<close> of the
  matrix and \<open>x\<close>, \<^verbatim>\<open>rmatvec(v)\<close> is \<^verbatim>\<open>dot\<close> of the conjugate transpose of the
  matrix and \<open>v\<close>, and \<^verbatim>\<open>matmat(V)\<close> is \<^verbatim>\<open>dot\<close> of the matrix and \<open>V\<close>, for every
  input and whatever the arithmetic of the dtype is.
\<close>

theorem aslinearoperator_dense_products:
  assumes wf: "nd_wf A"
  shows "(nd_shape A = [] \<longrightarrow>
            (\<exists>L. aslinearoperator np (PyNdarray dt A) = Inr L
                \<and> aslinearoperator np (PyMatrix dt A) = Inr L
                \<and> dense_operator np dt 1 1 (nd_data A) L))
       \<and> (nd_shape A = [n] \<longrightarrow>
            (\<exists>L. aslinearoperator np (PyNdarray dt A) = Inr L
                \<and> aslinearoperator np (PyMatrix dt A) = Inr L
                \<and> dense_operator np dt 1 n (nd_data A) L))
       \<and> (nd_shape A = [m, n] \<longrightarrow>
            (\<exists>L. aslinearoperator np (PyNdarray dt A) = Inr L
                \<and> aslinearoperator np (PyMatrix dt A) = Inr L
                \<and> dense_operator np dt m n (nd_data A) L))"
proof (intro conjI impI)
  assume s: "nd_shape A = []"
  then have "atleast_2d A = NDArray [1, 1] (nd_data A)" by (cases A) simp
  moreover have "length (nd_data A) = 1 * 1" using wf s by (simp add: nd_wf_def)
  ultimately have "\<exists>L. aslinearoperator_dense np dt A = Inr L
                      \<and> dense_operator np dt 1 1 (nd_data A) L"
    using s by (intro aslinearoperator_dense_layout) simp_all
  then show "\<exists>L. aslinearoperator np (PyNdarray dt A) = Inr L
                \<and> aslinearoperator np (PyMatrix dt A) = Inr L
                \<and> dense_operator np dt 1 1 (nd_data A) L"
    by simp
next
  assume s: "nd_shape A = [n]"
  then have "atleast_2d A = NDArray [1, n] (nd_data A)" by (cases A) simp
  moreover have "length (nd_data A) = 1 * n" using wf s by (simp add: nd_wf_def)
  ultimately have "\<exists>L. aslinearoperator_dense np dt A = Inr L
                      \<and> dense_operator np dt 1 n (nd_data A) L"
    using s by (intro aslinearoperator_dense_layout) simp_all
  then show "\<exists>L. aslinearoperator np (PyNdarray dt A) = Inr L
                \<and> aslinearoperator np (PyMatrix dt A) = Inr L
                \<and> dense_operator np dt 1 n (nd_data A) L"
    by simp
next
  assume s: "nd_shape A = [m, n]"
  then have "atleast_2d A = NDArray [m, n] (nd_data A)" by (cases A) simp
  moreover have "length (nd_data A) = m * n" using wf s by (simp add: nd_wf_def)
  ultimately have "\<exists>L. aslinearoperator_dense np dt A = Inr L
                      \<and> dense_operator np dt m n (nd_data A) L"
    using s by (intro aslinearoperator_dense_layout) simp_all
  then show "\<exists>L. aslinearoperator np (PyNdarray dt A) = Inr L
                \<and> aslinearoperator np (PyMatrix dt A) = Inr L
                \<and> dense_operator np dt m n (nd_data A) L"
    by simp
qed

text \<open>
  With exact arithmetic: the 0-d array \<open>5\<close> is the 1 by 1 operator that maps
  \<open>[2]\<close> to \<open>[10]\<close>; the vector \<open>[1, 2]\<close> is the 1 by 2 operator that maps
  \<open>[1, 1]\<close> to \<open>[3]\<close>; the matrix \<open>[[2, 0], [0, 3i]]\<close> maps \<open>[1, 1]\<close> to
  \<open>[2, 3i]\<close>, its conjugate transpose maps it to \<open>[2, -3i]\<close>, and the identity
  matrix is mapped to the matrix itself.
\<close>

theorem aslinearoperator_dense_products_witness:
  "nd_wf dense_scalar \<and> nd_shape dense_scalar = []
   \<and> call_repr (aslinearoperator np_complex (PyNdarray ''complex128'' dense_scalar))
       = Inr ''<1x1 LinearOperator with dtype=complex128>''
   \<and> call_matvec (aslinearoperator np_complex (PyNdarray ''complex128'' dense_scalar))
        (NDArray [1] [2]) = Inr (NDArray [1] [10])
   \<and> nd_wf dense_vector \<and> nd_shape dense_vector = [2]
   \<and> call_repr (aslinearoperator np_complex (PyNdarray ''complex128'' dense_vector))
       = Inr ''<1x2 LinearOperator with dtype=complex128>''
   \<and> call_matvec (aslinearoperator np_complex (PyNdarray ''complex128'' dense_vector))
        (NDArray [2] [1, 1]) = Inr (NDArray [1] [3])
   \<and> nd_wf dense_diag \<and> nd_shape dense_diag = [2, 2]
   \<and> call_repr (aslinearoperator np_complex (PyNdarray ''complex128'' dense_diag))
       = Inr ''<2x2 LinearOperator with dtype=complex128>''
   \<and> call_matvec (aslinearoperator np_complex (PyNdarray ''complex128'' dense_diag))
        (NDArray [2] [1, 1]) = Inr (NDArray [2] [2, 3 * \<i>])
   \<and> call_rmatvec (aslinearoperator np_complex (PyNdarray ''complex128'' dense_diag))
        (NDArray [2] [1, 1]) = Inr (NDArray [2] [2, - (3 * \<i>)])
   \<and> call_matmat (aslinearoperator np_complex (PyNdarray ''complex128'' dense_diag))
        (NDArray [2, 2] [1, 0, 0, 1]) = Inr (NDArray [2, 2] [2, 0, 0, 3 * \<i>])"
proof -
  have s: "nd_wf dense_scalar" "nd_shape dense_scalar = []"
    by (simp_all add: dense_scalar_def nd_wf_def)
  have v: "nd_wf dense_vector" "nd_shape dense_vector = [2]"
    by (simp_all add: dense_vector_def nd_wf_def)
  have d: "nd_wf dense_diag" "nd_shape dense_diag = [2, 2]"
    by (simp_all add: dense_diag_def nd_wf_def)
  obtain Ls where Ls: "aslinearoperator np_complex (PyNdarray ''complex128'' dense_scalar) = Inr Ls"
    and Ls_op: "dense_operator np_complex ''complex128'' 1 1 (nd_data dense_scalar) Ls"
    using aslinearoperator_dense_products
            [OF s(1), where np = np_complex and dt = "''complex128''"] s(2)
    by blast
  obtain Lv where Lv: "aslinearoperator np_complex (PyNdarray ''complex128'' dense_vector) = Inr Lv"
    and Lv_op: "dense_operator np_complex ''complex128'' 1 2 (nd_data dense_vector) Lv"
    using aslinearoperator_dense_products
            [OF v(1), where np = np_complex and dt = "''complex128''" and n = 2] v(2)
    by blast
  obtain Ld where Ld: "aslinearoperator np_complex (PyNdarray ''complex128'' dense_diag) = Inr Ld"
    and Ld_op: "dense_operator np_complex ''complex128'' 2 2 (nd_data dense_diag) Ld"
    using aslinearoperator_dense_products
            [OF d(1), where np = np_complex and dt = "''complex128''" and m = 2 and n = 2] d(2)
    by blast
  have r1: "LinearOperator_repr Ls = Inr ''<1x1 LinearOperator with dtype=complex128>''"
  proof -
    have "shape Ls = Some (PTuple [PInt (int 1), PInt (int 1)])" "dtype Ls = Some ''complex128''"
      using Ls_op by blast+
    then show ?thesis
      by (simp add: LinearOperator_repr_def unpack2_def str_int_def digit_char_def)
  qed
  have r2: "LinearOperator_repr Lv = Inr ''<1x2 LinearOperator with dtype=complex128>''"
  proof -
    have "shape Lv = Some (PTuple [PInt (int 1), PInt (int 2)])" "dtype Lv = Some ''complex128''"
      using Lv_op by blast+
    then show ?thesis
      by (simp add: LinearOperator_repr_def unpack2_def str_int_def digit_char_def)
  qed
  have r3: "LinearOperator_repr Ld = Inr ''<2x2 LinearOperator with dtype=complex128>''"
  proof -
    have "shape Ld = Some (PTuple [PInt (int 2), PInt (int 2)])" "dtype Ld = Some ''complex128''"
      using Ld_op by blast+
    then show ?thesis
      by (simp add: LinearOperator_repr_def unpack2_def str_int_def digit_char_def)
  qed
  have m1: "call_attr (matvec Ls) (NDArray [1] [2]) = Inr (NDArray [1] [10])"
  proof -
    have "call_attr (matvec Ls) (NDArray [1] [2])
            = np_dot np_complex (NDArray [1, 1] (nd_data dense_scalar)) (NDArray [1] [2])"
      using Ls_op by blast
    also have "\<dots> = Inr (NDArray [1] [10])"
      by (simp add: np_complex_def numpy_exact_def exact_dot_def dense_scalar_def)
    finally show ?thesis .
  qed
  have m2: "call_attr (matvec Lv) (NDArray [2] [1, 1]) = Inr (NDArray [1] [3])"
  proof -
    have "call_attr (matvec Lv) (NDArray [2] [1, 1])
            = np_dot np_complex (NDArray [1, 2] (nd_data dense_vector)) (NDArray [2] [1, 1])"
      using Lv_op by blast
    also have "\<dots> = Inr (NDArray [1] [3])"
      by (simp add: np_complex_def numpy_exact_def exact_dot_def dense_vector_def upt_rec)
    finally show ?thesis .
  qed
  have m3: "call_attr (matvec Ld) (NDArray [2] [1, 1]) = Inr (NDArray [2] [2, 3 * \<i>])"
  proof -
    have "call_attr (matvec Ld) (NDArray [2] [1, 1])
            = np_dot np_complex (NDArray [2, 2] (nd_data dense_diag)) (NDArray [2] [1, 1])"
      using Ld_op by blast
    also have "\<dots> = Inr (NDArray [2] [2, 3 * \<i>])"
      by (simp add: np_complex_def numpy_exact_def exact_dot_def dense_diag_def upt_rec)
    finally show ?thesis .
  qed
  have m4: "call_attr (rmatvec Ld) (NDArray [2] [1, 1]) = Inr (NDArray [2] [2, - (3 * \<i>)])"
  proof -
    have "call_attr (rmatvec Ld) (NDArray [2] [1, 1])
            = np_dot np_complex
                (NDArray [2, 2] (hermitian_data (np_conj np_complex) 2 2 (nd_data dense_diag)))
                (NDArray [2] [1, 1])"
      using Ld_op by blast
    also have "\<dots> = Inr (NDArray [2] [2, - (3 * \<i>)])"
      by (simp add: np_complex_def numpy_exact_def exact_dot_def dense_diag_def
            hermitian_data_def upt_rec)
    finally show ?thesis .
  qed
  have m5: "call_attr (matmat Ld) (NDArray [2, 2] [1, 0, 0, 1])
              = Inr (NDArray [2, 2] [2, 0, 0, 3 * \<i>])"
  proof -
    have "call_attr (matmat Ld) (NDArray [2, 2] [1, 0, 0, 1])
            = np_dot np_complex (NDArray [2, 2] (nd_data dense_diag)) (NDArray [2, 2] [1, 0, 0, 1])"
      using Ld_op by blast
    also have "\<dots> = Inr (NDArray [2, 2] [2, 0, 0, 3 * \<i>])"
      by (simp add: np_complex_def numpy_exact_def exact_dot_def dense_diag_def upt_rec)
    finally show ?thesis .
  qed
  show ?thesis
    unfolding call_repr_def call_matvec_def call_rmatvec_def call_matmat_def Ls Lv Ld sum.case
    using s v d r1 r2 r3 m1 m2 m3 m4 m5 by blast
qed

section \<open>Normalising an operator\<close>

text \<open>
  C5.  For every value that is already a \<^verbatim>\<open>LinearOperator\<close>,
  \<^verbatim>\<open>aslinearoperator\<close> returns that very value: no copy is made and no layer is
  wrapped around it, so normalising the result once more changes nothing.
\<close>

theorem aslinearoperator_operator_identity:
  "aslinearoperator np (PyLinearOperator A) = Inr A
   \<and> (case aslinearoperator np (PyLinearOperator A) of
        Inl e \<Rightarrow> Inl e
      | Inr B \<Rightarrow> aslinearoperator np (PyLinearOperator B)) = Inr A"
  by simp

text \<open>An operator built by hand goes through unchanged.\<close>

theorem aslinearoperator_operator_identity_witness:
  "aslinearoperator np_complex (PyLinearOperator
      \<lparr>shape = Some shape_2x2, matvec = Some (PFun cmv), rmatvec = Some (PFun cmv),
       matmat = Some (PFun cmv), dtype = None\<rparr>)
     = Inr \<lparr>shape = Some shape_2x2, matvec = Some (PFun cmv), rmatvec = Some (PFun cmv),
            matmat = Some (PFun cmv), dtype = None\<rparr>"
  using aslinearoperator_operator_identity
    [where np = np_complex
       and A = "\<lparr>shape = Some shape_2x2, matvec = Some (PFun cmv), rmatvec = Some (PFun cmv),
                   matmat = Some (PFun cmv), dtype = None\<rparr>"]
  by blast

end
